theory Spec2Isabelle
  imports Main
begin

section \<open>Websocket sessions: the logout handler\<close>

text \<open>
  \<^verbatim>\<open>src/websocket_routes/logout.js\<close>. A connection object carries its session in the two
  fields \<open>auth\<close> (the string \<open>guest\<close> or the address logged in) and \<open>isGuest\<close>; \<open>req\<close> is
  the upgrade request, read only by \<open>utils.getLogDetails\<close> for the log line.
\<close>

record 'r websocket =
  auth :: string
  isGuest :: bool
  req :: 'r

record logout_reply =
  reply_ok :: bool
  reply_isGuest :: bool

text \<open>
  What one run of the handler leaves behind: the connection after the two assignments,
  the object returned to the dispatcher, and the line written to the console.
\<close>

record 'r logout_outcome =
  ws_after :: "'r websocket"
  returned :: logout_reply
  console :: "string list"

text \<open>
  \<open>utils.getLogDetails\<close> is not part of the handler's file; it is the parameter
  \<open>getLogDetails\<close>. The log line is built before the assignments, so it names the session
  that is being left.
\<close>

definition logout :: "('r \<Rightarrow> string) \<Rightarrow> 'r websocket \<Rightarrow> 'r logout_outcome" where
  "logout getLogDetails ws =
     (let logDetails = getLogDetails (req ws);
          line = ''[Websockets] Session '' @ auth ws @ '' logged out '' @ logDetails;
          ws = ws\<lparr>auth := ''guest''\<rparr>;
          ws = ws\<lparr>isGuest := True\<rparr>
      in \<lparr>ws_after = ws,
          returned = \<lparr>reply_ok = True, reply_isGuest = True\<rparr>,
          console = [line]\<rparr>)"


section \<open>Detailed work: block value and the decrease forecast\<close>

text \<open>
  The route \<^verbatim>\<open>GET /work/detailed\<close>. One row of \<open>names.getDetailedUnpaid()\<close> is a
  countdown value \<open>unpaid\<close> with the number \<open>count\<close> of names that have it.
\<close>

record unpaid_group =
  unpaid :: int
  count :: int

record block =
  block_id :: nat

record decrease_info =
  dec_value :: int
  dec_blocks :: int
  dec_reset :: int

record work_detailed_reply =
  wd_ok :: bool
  wd_work :: int
  wd_unpaid :: int
  base_value :: int
  block_value :: int
  decrease :: decrease_info

text \<open>
  The collaborators of the route, none of them in the route's file: what
  \<open>blocks.getLastBlock()\<close>, \<open>names.getUnpaidNameCount()\<close>, \<open>names.getDetailedUnpaid()\<close>
  and \<open>krist.getWork()\<close> resolve to, and the schedule \<open>blocks.getBaseBlockValue\<close>.
  The route reads \<open>lastBlock.id\<close> without a check, so the last block is a block.
\<close>

record work_sources =
  getLastBlock :: block
  getUnpaidNameCount :: int
  getBaseBlockValue :: "nat \<Rightarrow> int"
  getDetailedUnpaid :: "unpaid_group list"
  getWork :: int

text \<open>
  \<open>Array.prototype.find\<close> is \<^const>\<open>List.find\<close>: the first element, in the order of the
  array, that passes the test. \<open>sort((a, b) => b.unpaid - a.unpaid)\<close> is a stable sort
  into descending \<open>unpaid\<close>, here the stable \<^const>\<open>sort_key\<close> on the negated key.
  \<open>mostUnpaid[0]\<close> is read only behind the length test.
\<close>

definition work_detailed :: "work_sources \<Rightarrow> work_detailed_reply" where
  "work_detailed src =
     (let lastBlock = getLastBlock src;
          unpaidNames = getUnpaidNameCount src;
          baseValue = getBaseBlockValue src (block_id lastBlock);
          detailedUnpaid = getDetailedUnpaid src;
          nextUnpaid = List.find (\<lambda>u. unpaid u > 0) detailedUnpaid;
          mostUnpaid = filter (\<lambda>u. unpaid u > 0) detailedUnpaid;
          mostUnpaid = sort_key (\<lambda>u. - unpaid u) mostUnpaid
      in \<lparr>wd_ok = True,
          wd_work = getWork src,
          wd_unpaid = unpaidNames,
          base_value = baseValue,
          block_value = baseValue + unpaidNames,
          decrease = \<lparr>
            dec_value = (case nextUnpaid of Some n \<Rightarrow> count n | None \<Rightarrow> 0),
            dec_blocks = (case nextUnpaid of Some n \<Rightarrow> unpaid n | None \<Rightarrow> 0),
            dec_reset = (case mostUnpaid of m # _ \<Rightarrow> unpaid m | [] \<Rightarrow> 0)\<rparr>\<rparr>)"



text \<open>A registered name, with the blocks left before it stops adding to the block value.\<close>

record name_entry =
  entry_name :: string
  entry_owner :: string
  unpaidCountdown :: int

definition positive_countdowns :: "name_entry list \<Rightarrow> int list" where
  "positive_countdowns names = sort (remdups (filter (\<lambda>c. 0 < c) (map unpaidCountdown names)))"

text \<open>
  Modelled from the spec: \<open>names.getDetailedUnpaid\<close> is not in the route's file. The spec
  gives its result as one entry per distinct positive countdown value present, with the
  number of names that have it, in an order that must support the derivation of the
  forecast; the entries are listed here by ascending countdown.
\<close>

definition detailedUnpaid :: "name_entry list \<Rightarrow> unpaid_group list" where
  "detailedUnpaid names =
     map (\<lambda>c. \<lparr>unpaid = c, count = int (length (filter (\<lambda>n. unpaidCountdown n = c) names))\<rparr>)
       (positive_countdowns names)"


section \<open>Legacy plain-text queries on the root route\<close>

text \<open>
  \<^verbatim>\<open>src/routes/addresses.js\<close>, the handler of \<^verbatim>\<open>GET /\<close>. Rows of the address and
  transaction tables. The fields \<open>id\<close>, \<open>from\<close>, \<open>to\<close>, \<open>value\<close>, \<open>time\<close> of a transaction
  carry the prefix \<open>tx_\<close> here. \<open>from\<close> and \<open>to\<close> may be null. The legacy rendering reads
  \<open>time\<close>, \<open>from\<close>, \<open>to\<close>, \<open>value\<close> and \<open>id\<close>; \<open>tx_type\<close> is the tag stored with the row.
\<close>

type_synonym timestamp = int

record address =
  address :: string
  balance :: nat
  totalin :: nat
  totalout :: nat
  firstseen :: timestamp
  alert :: "string option"

datatype transaction_type = mined | transfer | name_purchase | name_transfer | name_a_record

record transaction =
  tx_id :: nat
  tx_from :: "string option"
  tx_to :: "string option"
  tx_value :: nat
  tx_time :: timestamp
  tx_name :: "string option"
  tx_metadata :: "string option"
  tx_type :: transaction_type

text \<open>The result object of a listing query: \<open>rows\<close> and the total \<open>count\<close>.\<close>

record 'a found =
  rows :: "'a list"
  count_all :: nat

text \<open>
  The value of a call that the caller does not await. When the function hands back the
  result object itself the caller holds it (\<open>Settled\<close>); when it hands back a promise of
  the result the caller holds the promise (\<open>Pending\<close>), whose \<open>rows\<close> property is
  undefined.
\<close>

datatype 'a unawaited = Settled 'a | Pending 'a

text \<open>
  The query string of a request to \<^verbatim>\<open>GET /\<close>: each parameter is undefined (\<open>None\<close>) or a
  string, which is empty for \<^verbatim>\<open>?richapi\<close> and \<^verbatim>\<open>?getbalance=\<close> alike.
\<close>

record root_query =
  q_getbalance :: "string option"
  q_alert :: "string option"
  q_richapi :: "string option"
  q_listtx :: "string option"
  q_overview :: "string option"
  q_id :: "string option"

text \<open>
  \<open>if (req.query.x)\<close> tests truthiness: the parameter is there and not the empty string.
  \<open>typeof req.query.x !== "undefined"\<close> tests presence only.
\<close>

definition truthy :: "string option \<Rightarrow> string option" where
  "truthy x = (case x of None \<Rightarrow> None | Some s \<Rightarrow> if s = [] then None else Some s)"

definition present :: "string option \<Rightarrow> bool" where
  "present x = (x \<noteq> None)"

text \<open>
  What the handler does with the response: \<open>res.send(body)\<close>, \<open>next()\<close>, or the TypeError
  thrown by \<open>results.rows.forEach\<close> when \<open>results.rows\<close> is undefined, which leaves the
  request unanswered by this handler.
\<close>

datatype reply = Send string | Next | TypeError

text \<open>One call of \<open>tx.getTransactionsByAddress\<close> with its four arguments.\<close>

record tx_fetch =
  fetch_address :: string
  fetch_limit :: nat
  fetch_offset :: nat
  fetch_includeMined :: bool

record root_outcome =
  reply :: reply
  fetched :: "tx_fetch list"

text \<open>
  The collaborators of the handler, none of them in the route's file:
  \<open>addresses.getAddress\<close> (null for an unknown address), \<open>krist.makeV2Address\<close>,
  \<open>addresses.getRich()\<close>, \<open>tx.getTransactionsByAddress\<close> and the date library's
  \<open>moment(t).format(pattern)\<close>. All but \<open>tx.getTransactionsByAddress\<close> are awaited or
  synchronous, so the model holds what they resolve to.
\<close>

record legacy_deps =
  getAddress :: "string \<Rightarrow> address option"
  makeV2Address :: "string \<Rightarrow> string"
  getRich :: "address found"
  getTransactionsByAddress :: "string \<Rightarrow> nat \<Rightarrow> nat \<Rightarrow> bool \<Rightarrow> transaction found unawaited"
  moment_format :: "timestamp \<Rightarrow> string \<Rightarrow> string"

subsection \<open>Numbers as text\<close>

definition digit :: "nat \<Rightarrow> char" where
  "digit d = (if d = 0 then CHR ''0'' else if d = 1 then CHR ''1'' else if d = 2 then CHR ''2''
     else if d = 3 then CHR ''3'' else if d = 4 then CHR ''4'' else if d = 5 then CHR ''5''
     else if d = 6 then CHR ''6'' else if d = 7 then CHR ''7'' else if d = 8 then CHR ''8''
     else CHR ''9'')"

text \<open>The decimal digits of a natural number, most significant first.\<close>

fun decimal :: "nat \<Rightarrow> string" where
  "decimal n = (if n < 10 then [digit n] else decimal (n div 10) @ [digit (n mod 10)])"

declare decimal.simps [simp del]

text \<open>
  A number of the script language is a double. An integer below \<open>2^53\<close> is a double as it
  is; a larger one reaches the script as the nearest double, which keeps the 53 leading
  bits and rounds the rest, a tie going to the even neighbour. \<open>bitlen\<close> counts the bits
  of a number.
\<close>

fun bitlen :: "nat \<Rightarrow> nat" where
  "bitlen n = (if n = 0 then 0 else Suc (bitlen (n div 2)))"

declare bitlen.simps [simp del]

definition to_double :: "nat \<Rightarrow> nat" where
  "to_double n =
     (if n < 2 ^ 53 then n
      else (let e = bitlen n - 53;
                q = n div 2 ^ e;
                r = n mod 2 ^ e;
                half = 2 ^ (e - 1);
                q = (if half < r \<or> (r = half \<and> odd q) then q + 1 else q)
            in q * 2 ^ e))"

text \<open>
  The digits \<open>Number.prototype.toString\<close> prints for a double \<open>m\<close> are the fewest digits
  that still read back as \<open>m\<close>. With \<open>p\<close> a power of ten, the candidates with all digits
  below \<open>p\<close> zero are the multiples of \<open>p\<close> next to \<open>m\<close> on either side; the search starts
  with one digit and takes on a digit at a time. Of two candidates the closer one is
  taken, and the even one when they are equally close.
\<close>

fun shortest_from :: "nat \<Rightarrow> nat \<Rightarrow> nat" where
  "shortest_from m p =
     (let lo = (m div p) * p;
          hi = lo + p;
          lo_ok = (to_double lo = m);
          hi_ok = (to_double hi = m)
      in if lo_ok \<and> hi_ok then
           (if m - lo < hi - m then lo else if hi - m < m - lo then hi
            else if even (lo div p) then lo else hi)
         else if lo_ok then lo
         else if hi_ok then hi
         else if p \<le> 1 then m
         else shortest_from m (p div 10))"

declare shortest_from.simps [simp del]

text \<open>From \<open>10^21\<close> on the digits are printed with an exponent, as in \<open>1.5e+21\<close>.\<close>

definition exponent_form :: "nat \<Rightarrow> string" where
  "exponent_form c =
     (let digits = decimal c;
          s = rev (dropWhile (\<lambda>d. d = CHR ''0'') (rev digits))
      in (case s of
            [] \<Rightarrow> []
          | d # rest \<Rightarrow> d # (if rest = [] then [] else CHR ''.'' # rest))
         @ ''e+'' @ decimal (length digits - 1))"

text \<open>
  \<open>Number.prototype.toString\<close> and \<open>String(number)\<close> on a non-negative integer of the
  database: the integer becomes a double, and the double is printed. Below \<open>2^53\<close> that
  is the integer's own decimal digits; from there on it is the shortest digits of the
  nearest double, filled up with zeros; from \<open>10^21\<close> on it has an exponent; and beyond
  the largest double it is \<open>Infinity\<close>.
\<close>

definition toString :: "nat \<Rightarrow> string" where
  "toString n =
     (let m = to_double n
      in if 2 ^ 1024 \<le> m then ''Infinity''
         else if m < 2 ^ 53 then decimal m
         else (let c = shortest_from m (10 ^ (length (decimal m) - 1))
               in if c < 10 ^ 21 then decimal c else exponent_form c))"

text \<open>Reading a digit string back, to say what a decimal rendering is.\<close>

definition digit_value :: "char \<Rightarrow> nat" where
  "digit_value c = of_char c - 48"

definition decimal_value :: "string \<Rightarrow> nat" where
  "decimal_value s = foldl (\<lambda>n c. 10 * n + digit_value c) 0 s"

definition is_digit :: "char \<Rightarrow> bool" where
  "is_digit c = (c \<in> set ''0123456789'')"

text \<open>
  Modelled from the spec: \<open>utils.padDigits\<close> is not in the route's file. The spec calls
  its result "8-digit zero-padded": the number as text, with zeros put in front until
  there are \<open>digits\<close> characters. A number with more digits than that is left as it is.
\<close>

definition padDigits :: "nat \<Rightarrow> nat \<Rightarrow> string" where
  "padDigits number digits =
     replicate (digits - length (toString number)) (CHR ''0'') @ toString number"

subsection \<open>The richapi branch\<close>

text \<open>The \<open>forEach\<close> loop over the rich list, appending to \<open>out\<close> three times per row.\<close>

definition richapi_row :: "legacy_deps \<Rightarrow> string \<Rightarrow> address \<Rightarrow> string" where
  "richapi_row deps out addr =
     (let out = out @ take 10 (address addr);
          out = out @ padDigits (balance addr) 8;
          out = out @ moment_format deps (firstseen addr) ''DD MMM YYYY''
      in out)"

definition richapi_body :: "legacy_deps \<Rightarrow> string" where
  "richapi_body deps = foldl (richapi_row deps) [] (rows (getRich deps))"

subsection \<open>The listtx branch\<close>

text \<open>\<open>!x || x.length < 10\<close>: null, the empty string, or fewer than ten characters.\<close>

definition absent_or_short :: "string option \<Rightarrow> bool" where
  "absent_or_short x = (case x of None \<Rightarrow> True | Some s \<Rightarrow> s = [] \<or> length s < 10)"

text \<open>
  The peer and the sign of one row, as the loop body assigns them: first by comparing
  \<open>to\<close> and \<open>from\<close> with the address queried, then the two overrides of the peer, the one
  on \<open>from\<close> before the one on \<open>to\<close>. The peer is a value of the script language and is
  null when it was copied from a null field.
\<close>

definition listtx_peer_sign :: "string \<Rightarrow> transaction \<Rightarrow> string option \<times> string" where
  "listtx_peer_sign address_address transaction =
     (let peer = Some [];
          sign = [];
          (peer, sign) =
            (if tx_to transaction = Some address_address then (tx_from transaction, ''+'')
             else if tx_from transaction = Some address_address then (tx_to transaction, ''-'')
             else (peer, sign));
          peer = (if absent_or_short (tx_from transaction) then Some ''N/A(Mined)'' else peer);
          peer = (if absent_or_short (tx_to transaction) then Some ''N/A(Names)'' else peer)
      in (peer, sign))"

text \<open>\<open>out += peer\<close>: a string is appended as it is, null as the text \<open>null\<close>.\<close>

definition js_text :: "string option \<Rightarrow> string" where
  "js_text v = (case v of None \<Rightarrow> ''null'' | Some s \<Rightarrow> s)"

definition listtx_row :: "legacy_deps \<Rightarrow> root_query \<Rightarrow> string \<Rightarrow> string \<Rightarrow> transaction \<Rightarrow> string" where
  "listtx_row deps query address_address out transaction =
     (let out = out @ moment_format deps (tx_time transaction) ''MMM DD HH:mm'';
          (peer, sign) = listtx_peer_sign address_address transaction;
          out = out @ js_text peer;
          out = out @ sign;
          out = out @ padDigits (tx_value transaction) 8;
          out = (if present (q_id query) then out @ padDigits (tx_id transaction) 8 else out)
      in out)"

definition listtx_body :: "legacy_deps \<Rightarrow> root_query \<Rightarrow> string \<Rightarrow> transaction list \<Rightarrow> string" where
  "listtx_body deps query address_address results_rows =
     foldl (listtx_row deps query address_address) [] results_rows @ ''end''"

text \<open>
  The call of \<open>tx.getTransactionsByAddress\<close>: what the function hands back, and the
  record of the call with the arguments it was given.
\<close>

definition listing_call ::
  "legacy_deps \<Rightarrow> string \<Rightarrow> nat \<Rightarrow> nat \<Rightarrow> bool \<Rightarrow> transaction found unawaited \<times> tx_fetch list" where
  "listing_call deps a limit offset includeMined =
     (getTransactionsByAddress deps a limit offset includeMined,
      [\<lparr>fetch_address = a, fetch_limit = limit, fetch_offset = offset,
        fetch_includeMined = includeMined\<rparr>])"

text \<open>
  The branch for a truthy \<open>listtx\<close>. The call of \<open>tx.getTransactionsByAddress\<close> is not
  awaited: the rows are read from whatever the call hands back.
\<close>

definition listtx_branch :: "legacy_deps \<Rightarrow> root_query \<Rightarrow> string \<Rightarrow> root_outcome" where
  "listtx_branch deps query listtx =
     (case getAddress deps listtx of
        Some addr \<Rightarrow>
          (let (results, calls) =
                 listing_call deps (address addr)
                   (if present (q_overview query) then 3 else 500) 0 True
           in case results of
                Settled results \<Rightarrow>
                  \<lparr>reply = Send (listtx_body deps query (address addr) (rows results)),
                   fetched = calls\<rparr>
              | Pending _ \<Rightarrow> \<lparr>reply = TypeError, fetched = calls\<rparr>)
      | None \<Rightarrow> \<lparr>reply = Send ''Error4'', fetched = []\<rparr>)"

subsection \<open>The handler\<close>

text \<open>
  The four branches in the order of the source; each returns, so the first one whose
  test passes answers the request. \<open>res.send(null)\<close> sends an empty body.
\<close>

definition get_root :: "legacy_deps \<Rightarrow> root_query \<Rightarrow> root_outcome" where
  "get_root deps query =
     (case truthy (q_getbalance query) of
        Some getbalance \<Rightarrow>
          (case getAddress deps getbalance of
             Some addr \<Rightarrow> \<lparr>reply = Send (toString (balance addr)), fetched = []\<rparr>
           | None \<Rightarrow> \<lparr>reply = Send ''0'', fetched = []\<rparr>)
      | None \<Rightarrow>
     (case truthy (q_alert query) of
        Some alert_key \<Rightarrow>
          (case getAddress deps (makeV2Address deps alert_key) of
             Some addr \<Rightarrow>
               \<lparr>reply = Send (case alert addr of None \<Rightarrow> [] | Some text \<Rightarrow> text), fetched = []\<rparr>
           | None \<Rightarrow> \<lparr>reply = Send [], fetched = []\<rparr>)
      | None \<Rightarrow>
     (if present (q_richapi query) then \<lparr>reply = Send (richapi_body deps), fetched = []\<rparr>
      else
     (case truthy (q_listtx query) of
        Some listtx \<Rightarrow> listtx_branch deps query listtx
      | None \<Rightarrow> \<lparr>reply = Next, fetched = []\<rparr>))))"

subsection \<open>The legacy formats in the words of the specification\<close>

text \<open>
  One record of the rich list: the first ten characters of the address, the balance
  zero-padded to eight digits, the day the address was first seen.
\<close>

definition rich_record :: "(timestamp \<Rightarrow> string \<Rightarrow> string) \<Rightarrow> address \<Rightarrow> string" where
  "rich_record format addr =
     take 10 (address addr) @ padDigits (balance addr) 8 @ format (firstseen addr) ''DD MMM YYYY''"

text \<open>
  One record of the transaction listing of the address \<open>a\<close>. The counterpart is a
  sentinel when \<open>to\<close>, or else \<open>from\<close>, is absent or shorter than ten characters;
  otherwise it is the other party of the transaction: the sender when \<open>a\<close> received, the
  recipient when \<open>a\<close> sent, and nothing when \<open>a\<close> is neither. The sign is \<open>+\<close> when \<open>a\<close>
  received, \<open>-\<close> when \<open>a\<close> only sent.
\<close>

definition legacy_counterpart :: "string \<Rightarrow> transaction \<Rightarrow> string" where
  "legacy_counterpart a t =
     (if absent_or_short (tx_to t) then ''N/A(Names)''
      else if absent_or_short (tx_from t) then ''N/A(Mined)''
      else if tx_to t = Some a then (case tx_from t of Some peer \<Rightarrow> peer | None \<Rightarrow> [])
      else if tx_from t = Some a then (case tx_to t of Some peer \<Rightarrow> peer | None \<Rightarrow> [])
      else [])"

definition legacy_sign :: "string \<Rightarrow> transaction \<Rightarrow> string" where
  "legacy_sign a t = (if tx_to t = Some a then ''+'' else if tx_from t = Some a then ''-'' else [])"

definition legacy_record ::
  "(timestamp \<Rightarrow> string \<Rightarrow> string) \<Rightarrow> bool \<Rightarrow> string \<Rightarrow> transaction \<Rightarrow> string" where
  "legacy_record format wantId a t =
     format (tx_time t) ''MMM DD HH:mm'' @ legacy_counterpart a t @ legacy_sign a t
       @ padDigits (tx_value t) 8 @ (if wantId then padDigits (tx_id t) 8 else [])"


section \<open>Transactions of an address as JSON\<close>

text \<open>
  The route \<^verbatim>\<open>GET /addresses/:address/transactions\<close>. \<open>limit\<close> and \<open>offset\<close> are handed to
  the controller as they come; the model carries them as numbers. The errors are those
  the route documents.
\<close>

record transactions_request =
  param_address :: string
  q_limit :: "nat option"
  q_offset :: "nat option"
  q_excludeMined :: "string option"

datatype krist_error = address_not_found | invalid_parameter string

record controller_call =
  call_address :: string
  call_limit :: "nat option"
  call_offset :: "nat option"
  call_includeMined :: bool

record 'j transactions_body =
  body_ok :: bool
  body_count :: nat
  body_total :: nat
  body_transactions :: "'j list"

datatype 'j json_reply = Json "'j transactions_body" | ErrorToRes krist_error

record 'j transactions_outcome =
  json_reply :: "'j json_reply"
  controller_calls :: "controller_call list"

text \<open>
  \<open>txController.getTransactionsByAddress\<close> and \<open>txController.transactionToJSON\<close> are the
  parameters \<open>txController_getTransactionsByAddress\<close> and
  \<open>txController_transactionToJSON\<close>; an error thrown by the
  controller is \<open>Inl\<close> and goes to \<open>utils.sendErrorToRes\<close>.
\<close>

definition get_address_transactions ::
  "(string \<Rightarrow> nat option \<Rightarrow> nat option \<Rightarrow> bool \<Rightarrow> krist_error + transaction found)
     \<Rightarrow> (transaction \<Rightarrow> 'j) \<Rightarrow> transactions_request \<Rightarrow> 'j transactions_outcome" where
  "get_address_transactions txController_getTransactionsByAddress
       txController_transactionToJSON request =
     (let includeMined = \<not> present (q_excludeMined request);
          call = \<lparr>call_address = param_address request, call_limit = q_limit request,
                   call_offset = q_offset request, call_includeMined = includeMined\<rparr>
      in case txController_getTransactionsByAddress (param_address request) (q_limit request)
                (q_offset request) includeMined of
           Inr transactions \<Rightarrow>
             (let out = foldl (\<lambda>out transaction. out @ [txController_transactionToJSON transaction]) []
                          (rows transactions)
              in \<lparr>json_reply = Json \<lparr>body_ok = True, body_count = length out,
                     body_total = count_all transactions, body_transactions = out\<rparr>,
                  controller_calls = [call]\<rparr>)
         | Inl error \<Rightarrow> \<lparr>json_reply = ErrorToRes error, controller_calls = [call]\<rparr>)"

text \<open>
  Modelled from the spec: the listing behind the controller, \<open>listByAddress\<close>, is not in
  the route's file. The spec gives it as: the transactions of the address, ordered by
  \<open>id\<close> descending; when \<open>includeMined\<close> is false, rows whose type is \<open>mined\<close> are
  excluded; the page is cut by \<open>offset\<close> and \<open>limit\<close>, and the total is returned with it.
\<close>

definition listByAddress ::
  "transaction list \<Rightarrow> string \<Rightarrow> nat \<Rightarrow> nat \<Rightarrow> bool \<Rightarrow> transaction found" where
  "listByAddress log addressId limit offset includeMined =
     (let selected = filter (\<lambda>t. (tx_from t = Some addressId \<or> tx_to t = Some addressId)
                               \<and> (includeMined \<or> tx_type t \<noteq> mined)) log;
          ordered = rev (sort_key tx_id selected)
      in \<lparr>rows = take limit (drop offset ordered), count_all = length selected\<rparr>)"

text \<open>
  Modelled from the spec: the controller over a transaction log, with the pagination
  defaults of the spec (\<open>limit\<close> 50, clamped to a configured maximum; \<open>offset\<close> 0).
\<close>

definition controller_of_log ::
  "nat \<Rightarrow> transaction list \<Rightarrow> string \<Rightarrow> nat option \<Rightarrow> nat option \<Rightarrow> bool
     \<Rightarrow> krist_error + transaction found" where
  "controller_of_log maxLimit log addressId limit offset includeMined =
     Inr (listByAddress log addressId
            (min maxLimit (case limit of None \<Rightarrow> 50 | Some l \<Rightarrow> l))
            (case offset of None \<Rightarrow> 0 | Some off \<Rightarrow> off) includeMined)"

text \<open>
  The contract the spec puts on the listing: asked without mined transactions, it
  returns none.
\<close>

definition excludes_mined ::
  "(string \<Rightarrow> nat option \<Rightarrow> nat option \<Rightarrow> bool \<Rightarrow> krist_error + transaction found) \<Rightarrow> bool" where
  "excludes_mined controller =
     (\<forall>a limit offset found. controller a limit offset False = Inr found
        \<longrightarrow> (\<forall>t \<in> set (rows found). tx_type t \<noteq> mined))"




section \<open>Example ledgers and requests\<close>

text \<open>
  Concrete data for the closed theorems below: the address and the two transfers of the
  route's documentation, a mined transaction, and a date library that prints one fixed
  day.
\<close>

definition example_address :: address where
  "example_address = \<lparr>address = ''kxxhsp1uzh'', balance = 75, totalin = 125, totalout = 50,
     firstseen = 1454455839000, alert = None\<rparr>"

definition example_format :: "timestamp \<Rightarrow> string \<Rightarrow> string" where
  "example_format t pattern = (if pattern = ''DD MMM YYYY'' then ''02 Feb 2016'' else ''Feb 02 23:30'')"

definition sent_75 :: transaction where
  "sent_75 = \<lparr>tx_id = 153197, tx_from = Some ''kxxhsp1uzh'', tx_to = Some ''kre3w0i79j'',
     tx_value = 75, tx_time = 1454455851000, tx_name = None, tx_metadata = None,
     tx_type = transfer\<rparr>"

definition received_50 :: transaction where
  "received_50 = \<lparr>tx_id = 153196, tx_from = Some ''kre3w0i79j'', tx_to = Some ''kxxhsp1uzh'',
     tx_value = 50, tx_time = 1454455839000, tx_name = None, tx_metadata = None,
     tx_type = transfer\<rparr>"

definition mined_25 :: transaction where
  "mined_25 = \<lparr>tx_id = 153190, tx_from = None, tx_to = Some ''kxxhsp1uzh'',
     tx_value = 25, tx_time = 1454455800000, tx_name = None, tx_metadata = None,
     tx_type = mined\<rparr>"

definition example_log :: "transaction list" where
  "example_log = [mined_25, received_50, sent_75]"

definition example_deps :: legacy_deps where
  "example_deps = \<lparr>
     getAddress = (\<lambda>a. if a = ''kxxhsp1uzh'' then Some example_address else None),
     makeV2Address = (\<lambda>key. key),
     getRich = \<lparr>rows = [example_address], count_all = 1\<rparr>,
     getTransactionsByAddress =
       (\<lambda>a limit offset includeMined. Settled \<lparr>rows = take limit [sent_75, received_50, mined_25], count_all = 3\<rparr>),
     moment_format = example_format\<rparr>"

definition no_query :: root_query where
  "no_query = \<lparr>q_getbalance = None, q_alert = None, q_richapi = None, q_listtx = None,
     q_overview = None, q_id = None\<rparr>"

definition no_addresses :: legacy_deps where
  "no_addresses = example_deps\<lparr>getAddress := (\<lambda>a. None)\<rparr>"

definition sent_to_short :: transaction where
  "sent_to_short = sent_75\<lparr>tx_to := Some ''name''\<rparr>"

definition groups_ascending :: work_sources where
  "groups_ascending = \<lparr>getLastBlock = \<lparr>block_id = 100\<rparr>, getUnpaidNameCount = 3,
     getBaseBlockValue = (\<lambda>id. 1),
     getDetailedUnpaid = [\<lparr>unpaid = 5, count = 2\<rparr>, \<lparr>unpaid = 20, count = 1\<rparr>],
     getWork = 92861\<rparr>"


definition large_address :: address where
  "large_address = example_address\<lparr>address := ''kre3w0i79j'', balance := 9223372036854775808\<rparr>"

definition large_deps :: legacy_deps where
  "large_deps = example_deps\<lparr>getAddress := (\<lambda>a. Some large_address)\<rparr>"

definition rich_address :: address where
  "rich_address = example_address\<lparr>address := ''kre3w0i79j'', balance := 123456789\<rparr>"

definition two_rich :: legacy_deps where
  "two_rich = example_deps\<lparr>getRich := \<lparr>rows = [rich_address, example_address], count_all = 2\<rparr>\<rparr>"




text \<open>
  A listing that answers with one row made of the arguments it was called with: the
  limit as the value, the offset as the id, and no sender when mined transactions are
  asked for.
\<close>

definition echo_deps :: legacy_deps where
  "echo_deps = example_deps\<lparr>getTransactionsByAddress :=
     (\<lambda>a limit offset includeMined.
        Settled \<lparr>rows = [\<lparr>tx_id = offset, tx_from = (if includeMined then None else Some a),
                           tx_to = Some a, tx_value = limit, tx_time = 0, tx_name = None,
                           tx_metadata = None, tx_type = transfer\<rparr>],
                 count_all = 1\<rparr>)\<rparr>"

definition with_excludeMined :: transactions_request where
  "with_excludeMined = \<lparr>param_address = ''kxxhsp1uzh'', q_limit = None, q_offset = None,
     q_excludeMined = Some []\<rparr>"

definition without_excludeMined :: transactions_request where
  "without_excludeMined = with_excludeMined\<lparr>q_excludeMined := None\<rparr>"


section \<open>Properties of the logout handler\<close>

text \<open>
  C3. Whatever the session was, after a \<open>logout\<close> message the connection is a guest
  (\<open>auth\<close> is the string \<open>guest\<close> and \<open>isGuest\<close> is true) and the handler returns
  \<open>{ok: true, isGuest: true}\<close>. A second logout changes neither the connection nor the
  reply, and logging out a connection that is already a guest leaves it as it was.
\<close>

theorem logout_always_guest:
  "auth (ws_after (logout d ws)) = ''guest''
   \<and> isGuest (ws_after (logout d ws))
   \<and> returned (logout d ws) = \<lparr>reply_ok = True, reply_isGuest = True\<rparr>
   \<and> ws_after (logout d (ws_after (logout d ws))) = ws_after (logout d ws)
   \<and> returned (logout d (ws_after (logout d ws))) = returned (logout d ws)
   \<and> (auth ws = ''guest'' \<and> isGuest ws \<longrightarrow> ws_after (logout d ws) = ws)"
  by (simp add: logout_def Let_def)

text \<open>A guest and a logged-in session, both logged out.\<close>

theorem logout_always_guest_witness:
  "auth \<lparr>auth = ''guest'', isGuest = True, req = ()\<rparr> = ''guest''
   \<and> isGuest \<lparr>auth = ''guest'', isGuest = True, req = ()\<rparr>
   \<and> ws_after (logout (\<lambda>r. ''from 10.0.0.1'') \<lparr>auth = ''guest'', isGuest = True, req = ()\<rparr>)
       = \<lparr>auth = ''guest'', isGuest = True, req = ()\<rparr>
   \<and> ws_after (logout (\<lambda>r. ''from 10.0.0.1'') \<lparr>auth = ''kxxhsp1uzh'', isGuest = False, req = ()\<rparr>)
       = \<lparr>auth = ''guest'', isGuest = True, req = ()\<rparr>"
  using logout_always_guest [where d = "\<lambda>r. ''from 10.0.0.1''"
      and ws = "\<lparr>auth = ''guest'', isGuest = True, req = ()\<rparr>"]
    logout_always_guest [where d = "\<lambda>r. ''from 10.0.0.1''"
      and ws = "\<lparr>auth = ''kxxhsp1uzh'', isGuest = False, req = ()\<rparr>"]
  by simp


section \<open>Properties of the detailed-work reply\<close>

text \<open>
  C2. The \<open>block_value\<close> of the reply is the base block value of the last block's id plus
  the count of unpaid names, whatever the collaborators return; it is also the sum of the
  reply's own \<open>base_value\<close> and \<open>unpaid\<close> fields.
\<close>

theorem block_value_is_base_plus_unpaid:
  "block_value (work_detailed src)
     = getBaseBlockValue src (block_id (getLastBlock src)) + getUnpaidNameCount src
   \<and> block_value (work_detailed src)
     = base_value (work_detailed src) + wd_unpaid (work_detailed src)
   \<and> base_value (work_detailed src) = getBaseBlockValue src (block_id (getLastBlock src))
   \<and> wd_unpaid (work_detailed src) = getUnpaidNameCount src"
  by (simp add: work_detailed_def Let_def)

text \<open>The reply of the route's documentation: base value 1, three unpaid names.\<close>

theorem block_value_witness:
  "block_value (work_detailed groups_ascending) = 4
   \<and> base_value (work_detailed groups_ascending) = 1
   \<and> wd_unpaid (work_detailed groups_ascending) = 3"
  using block_value_is_base_plus_unpaid [where src = groups_ascending]
  by (simp add: groups_ascending_def)


section \<open>The decrease forecast\<close>


















section \<open>Numbers as text, and the two loops as concatenations\<close>

lemma digit_value_digit: "d < 10 \<Longrightarrow> digit_value (digit d) = d"
  by (simp add: digit_value_def digit_def)

lemma is_digit_digit: "is_digit (digit d)"
  by (simp add: is_digit_def digit_def)

lemma decimal_all_digits: "\<forall>c\<in>set (decimal n). is_digit c"
proof (induction n rule: decimal.induct)
  case (1 n)
  show ?case
  proof (cases "n < 10")
    case True
    then show ?thesis by (simp add: decimal.simps [of n] is_digit_digit)
  next
    case False
    with "1.IH" show ?thesis by (simp add: decimal.simps [of n] is_digit_digit)
  qed
qed

lemma decimal_value_snoc: "decimal_value (s @ [c]) = 10 * decimal_value s + digit_value c"
  by (simp add: decimal_value_def)

lemma decimal_value_decimal: "decimal_value (decimal n) = n"
proof (induction n rule: decimal.induct)
  case (1 n)
  show ?case
  proof (cases "n < 10")
    case True
    then show ?thesis
      by (simp add: decimal.simps [of n] decimal_value_def digit_value_digit)
  next
    case False
    then have "decimal_value (decimal (n div 10)) = n div 10" using "1.IH" by simp
    with False show ?thesis
      by (simp add: decimal.simps [of n] decimal_value_snoc digit_value_digit)
  qed
qed

lemma decimal_nonempty: "decimal n \<noteq> []"
  by (simp add: decimal.simps [of n])

lemma decimal_length_bound: "n < 10 ^ k \<Longrightarrow> 0 < k \<Longrightarrow> length (decimal n) \<le> k"
proof (induction n arbitrary: k rule: decimal.induct)
  case (1 n)
  show ?case
  proof (cases "n < 10")
    case True
    with "1.prems" show ?thesis by (simp add: decimal.simps [of n])
  next
    case False
    then obtain j where k: "k = Suc j" using "1.prems" by (cases k) auto
    have "0 < j" using False "1.prems" k by (cases j) auto
    moreover have "n div 10 < 10 ^ j"
      using "1.prems" k by (simp add: less_mult_imp_div_less mult.commute)
    ultimately have "length (decimal (n div 10)) \<le> j" using "1.IH" False by simp
    with False k show ?thesis by (simp add: decimal.simps [of n])
  qed
qed

lemma decimal_length_lower: "0 < n \<Longrightarrow> 10 ^ (length (decimal n) - 1) \<le> n"
proof (induction n rule: decimal.induct)
  case (1 n)
  show ?case
  proof (cases "n < 10")
    case True
    with "1.prems" show ?thesis by (simp add: decimal.simps [of n])
  next
    case False
    then have pos: "0 < n div 10" by simp
    then have ih: "10 ^ (length (decimal (n div 10)) - 1) \<le> n div 10"
      using "1.IH" False by simp
    have len: "length (decimal n) - 1 = Suc (length (decimal (n div 10)) - 1)"
      using False decimal_nonempty [of "n div 10"]
      by (cases "decimal (n div 10)") (simp_all add: decimal.simps [of n])
    have "10 * 10 ^ (length (decimal (n div 10)) - 1) \<le> 10 * (n div 10)"
      using ih by simp
    also have "\<dots> \<le> n" by simp
    finally show ?thesis using len by simp
  qed
qed

text \<open>An integer below \<open>2^53\<close> is printed with its own digits.\<close>

lemma to_double_safe: "n < 2 ^ 53 \<Longrightarrow> to_double n = n"
  by (simp add: to_double_def)

lemma toString_safe:
  assumes "n < 2 ^ 53"
  shows "toString n = decimal n"
proof -
  have "(2::nat) ^ 53 \<le> 2 ^ 1024" by (rule power_increasing) simp_all
  then have "\<not> 2 ^ 1024 \<le> n" using assms by simp
  then show ?thesis using assms by (simp add: toString_def to_double_safe Let_def)
qed

lemma bitlen_upper: "n < 2 ^ bitlen n"
proof (induction n rule: bitlen.induct)
  case (1 n)
  show ?case
  proof (cases "n = 0")
    case True
    then show ?thesis by (simp add: bitlen.simps [of n])
  next
    case False
    then have "n div 2 < 2 ^ bitlen (n div 2)" using "1.IH" by simp
    then have "n < 2 * 2 ^ bitlen (n div 2)" by simp
    with False show ?thesis by (simp add: bitlen.simps [of n])
  qed
qed

lemma bitlen_le: "n < 2 ^ k \<Longrightarrow> bitlen n \<le> k"
proof (induction n arbitrary: k rule: bitlen.induct)
  case (1 n)
  show ?case
  proof (cases "n = 0")
    case True
    then show ?thesis by (simp add: bitlen.simps [of 0])
  next
    case False
    then obtain j where k: "k = Suc j" using "1.prems" by (cases k) auto
    have "n div 2 < 2 ^ j" using "1.prems" k by simp
    then have "bitlen (n div 2) \<le> j" using "1.IH" False by simp
    with False k show ?thesis by (simp add: bitlen.simps [of n])
  qed
qed

lemma bitlen_gt:
  assumes "2 ^ k \<le> n"
  shows "k < bitlen n"
proof -
  have "(2::nat) ^ k < 2 ^ bitlen n"
    using assms bitlen_upper [of n] by (rule le_less_trans)
  then show ?thesis by simp
qed

lemma to_double_le: "to_double n \<le> 2 ^ bitlen n"
proof (cases "n < 2 ^ 53")
  case True
  then show ?thesis using bitlen_upper [of n] by (simp add: to_double_def)
next
  case False
  define e where "e = bitlen n - 53"
  have b: "bitlen n = e + 53" using False bitlen_gt [of 53 n] by (simp add: e_def)
  have "n < 2 ^ 53 * 2 ^ e" using bitlen_upper [of n] b by (simp add: power_add mult.commute)
  then have q: "n div 2 ^ e < 2 ^ 53" by (simp add: less_mult_imp_div_less)
  have "to_double n \<le> (n div 2 ^ e + 1) * 2 ^ e"
    using False by (simp add: to_double_def Let_def e_def)
  also have "\<dots> \<le> 2 ^ 53 * 2 ^ e" using q by (intro mult_right_mono) simp_all
  finally show ?thesis using b by (simp add: power_add mult.commute)
qed

lemma shortest_from_le: "shortest_from m p \<le> m + p"
proof (induction m p rule: shortest_from.induct)
  case (1 m p)
  define lo where "lo = (m div p) * p"
  have lo: "lo \<le> m + p" by (simp add: lo_def trans_le_add1)
  have hi: "lo + p \<le> m + p" by (simp add: lo_def)
  have eq: "shortest_from m p =
      (if to_double lo = m \<and> to_double (lo + p) = m then
         (if m - lo < lo + p - m then lo else if lo + p - m < m - lo then lo + p
          else if even (lo div p) then lo else lo + p)
       else if to_double lo = m then lo
       else if to_double (lo + p) = m then lo + p
       else if p \<le> 1 then m
       else shortest_from m (p div 10))"
    unfolding lo_def by (subst shortest_from.simps) (simp only: Let_def)
  have ih: "shortest_from m (p div 10) \<le> m + p"
    if "to_double lo \<noteq> m" and "to_double (lo + p) \<noteq> m" and "\<not> p \<le> 1"
  proof -
    have "shortest_from m (p div 10) \<le> m + p div 10"
      using that by (intro "1.IH" [OF refl refl refl refl]) (simp_all add: lo_def)
    then show ?thesis by simp
  qed
  show ?case
    unfolding eq using lo hi ih by (simp split: if_splits)
qed

text \<open>Every unsigned 64-bit integer is printed as digits and nothing else.\<close>

lemma toString_all_digits:
  assumes "n < 2 ^ 64"
  shows "\<forall>c\<in>set (toString n). is_digit c"
proof (cases "to_double n < 2 ^ 53")
  case True
  have "(2::nat) ^ 53 \<le> 2 ^ 1024" by (rule power_increasing) simp_all
  then have "\<not> 2 ^ 1024 \<le> to_double n" using True by simp
  then have "toString n = decimal (to_double n)" using True by (simp add: toString_def Let_def)
  then show ?thesis using decimal_all_digits by simp
next
  case False
  define m where "m = to_double n"
  define c where "c = shortest_from m (10 ^ (length (decimal m) - 1))"
  have "bitlen n \<le> 64" using assms by (rule bitlen_le)
  then have "(2::nat) ^ bitlen n \<le> 2 ^ 64" by (intro power_increasing) simp_all
  then have m64: "m \<le> 2 ^ 64" using to_double_le [of n] by (simp add: m_def)
  have "(2::nat) ^ 64 < 2 ^ 1024" by (rule power_strict_increasing) simp_all
  then have small: "\<not> 2 ^ 1024 \<le> m" using m64 by simp
  have "0 < m" using False by (simp add: m_def)
  then have "10 ^ (length (decimal m) - 1) \<le> m" by (rule decimal_length_lower)
  then have "c \<le> m + m" using shortest_from_le [of m "10 ^ (length (decimal m) - 1)"]
    by (simp add: c_def)
  then have "c \<le> 2 ^ 64 + 2 ^ 64" using m64 by simp
  moreover have "(2::nat) ^ 64 + 2 ^ 64 < 10 ^ 21" by simp
  ultimately have c21: "c < 10 ^ 21" by simp
  have big: "\<not> m < 2 ^ 53" using False by (simp add: m_def)
  have "toString n =
          (if 2 ^ 1024 \<le> m then ''Infinity''
           else if m < 2 ^ 53 then decimal m
           else if c < 10 ^ 21 then decimal c else exponent_form c)"
    by (simp only: toString_def Let_def m_def c_def)
  then have "toString n = decimal c"
    using small big c21 by (simp only: if_False if_True)
  then show ?thesis using decimal_all_digits by simp
qed

lemma padDigits_length: "length (padDigits n d) = max d (length (toString n))"
  by (simp add: padDigits_def)

lemma padDigits_eight:
  assumes "n < 100000000"
  shows "length (padDigits n 8) = 8"
proof -
  have "(100000000::nat) < 2 ^ 53" by simp
  then have "toString n = decimal n" using assms toString_safe [of n] by simp
  then show ?thesis using assms decimal_length_bound [of n 8] by (simp add: padDigits_length)
qed

lemma replicate_numeral: "replicate (numeral k) x = x # replicate (pred_numeral k) x"
  by (simp add: numeral_eq_Suc)

lemma example_decimals:
  "decimal 0 = ''0''"
  "decimal 75 = ''75''"
  "decimal 50 = ''50''"
  "decimal 25 = ''25''"
  "decimal 3 = ''3''"
  "decimal 500 = ''500''"
  "decimal 153197 = ''153197''"
  "decimal 153196 = ''153196''"
  "decimal 153190 = ''153190''"
  "decimal 123456789 = ''123456789''"
  "decimal 9223372036854775808 = ''9223372036854775808''"
  "decimal 9223372036854776000 = ''9223372036854776000''"
  by (simp_all add: decimal.simps digit_def)

lemma example_numbers_as_text:
  "toString 0 = ''0''"
  "toString 75 = ''75''"
  "padDigits 75 8 = ''00000075''"
  "padDigits 50 8 = ''00000050''"
  "padDigits 25 8 = ''00000025''"
  "padDigits 0 8 = ''00000000''"
  "padDigits 3 8 = ''00000003''"
  "padDigits 500 8 = ''00000500''"
  "padDigits 153197 8 = ''00153197''"
  "padDigits 153196 8 = ''00153196''"
  "padDigits 153190 8 = ''00153190''"
  "padDigits 123456789 8 = ''123456789''"
  by (simp_all add: padDigits_def toString_safe example_decimals replicate_numeral)

lemma bitlen_eq:
  assumes "2 ^ k \<le> n" and "n < 2 ^ Suc k"
  shows "bitlen n = Suc k"
  using bitlen_gt [OF assms(1)] bitlen_le [OF assms(2)] by simp

lemma to_double_above_2_63:
  assumes "9223372036854775808 \<le> n" and "n < 18446744073709551616"
  shows "to_double n =
           (if 1024 < n mod 2048 \<or> (n mod 2048 = 1024 \<and> odd (n div 2048))
            then n div 2048 + 1 else n div 2048) * 2048"
proof -
  have "bitlen n = Suc 63" using assms by (intro bitlen_eq) simp_all
  moreover have "\<not> n < 2 ^ 53" using assms by simp
  ultimately show ?thesis by (simp add: to_double_def Let_def)
qed

lemma to_double_above_2_62:
  assumes "4611686018427387904 \<le> n" and "n < 9223372036854775808"
  shows "to_double n =
           (if 512 < n mod 1024 \<or> (n mod 1024 = 512 \<and> odd (n div 1024))
            then n div 1024 + 1 else n div 1024) * 1024"
proof -
  have "bitlen n = Suc 62" using assms by (intro bitlen_eq) simp_all
  moreover have "\<not> n < 2 ^ 53" using assms by simp
  ultimately show ?thesis by (simp add: to_double_def Let_def)
qed

lemma large_balance_as_text: "toString 9223372036854775808 = ''9223372036854776000''"
  by (simp add: toString_def to_double_above_2_63 to_double_above_2_62 shortest_from.simps
      Let_def example_decimals)

lemma foldl_append_each: "foldl (\<lambda>out x. out @ f x) acc xs = acc @ concat (map f xs)"
  by (induction xs arbitrary: acc) simp_all

lemma foldl_push: "foldl (\<lambda>out x. out @ [f x]) acc xs = acc @ map f xs"
  by (induction xs arbitrary: acc) simp_all

lemma peer_is_counterpart:
  "js_text (fst (listtx_peer_sign a t)) = legacy_counterpart a t"
  by (auto simp: listtx_peer_sign_def legacy_counterpart_def js_text_def Let_def
      absent_or_short_def split: option.splits)

lemma peer_never_null: "fst (listtx_peer_sign a t) \<noteq> None"
  by (auto simp: listtx_peer_sign_def Let_def absent_or_short_def split: option.splits)

lemma sign_is_legacy_sign: "snd (listtx_peer_sign a t) = legacy_sign a t"
  by (simp add: listtx_peer_sign_def legacy_sign_def Let_def)

lemma listtx_row_appends:
  "listtx_row deps query a out t
     = out @ legacy_record (moment_format deps) (present (q_id query)) a t"
  using peer_is_counterpart [of a t] sign_is_legacy_sign [of a t]
  by (cases "listtx_peer_sign a t") (simp add: listtx_row_def legacy_record_def Let_def)

lemma listtx_body_concat:
  "listtx_body deps query a rs
     = concat (map (legacy_record (moment_format deps) (present (q_id query)) a) rs) @ ''end''"
proof -
  have "listtx_row deps query a
          = (\<lambda>out t. out @ legacy_record (moment_format deps) (present (q_id query)) a t)"
    by (intro ext) (rule listtx_row_appends)
  then show ?thesis
    by (simp add: listtx_body_def foldl_append_each)
qed

lemma richapi_row_appends:
  "richapi_row deps out addr = out @ rich_record (moment_format deps) addr"
  by (simp add: richapi_row_def rich_record_def Let_def)

lemma richapi_body_concat:
  "richapi_body deps = concat (map (rich_record (moment_format deps)) (rows (getRich deps)))"
proof -
  have "richapi_row deps = (\<lambda>out addr. out @ rich_record (moment_format deps) addr)"
    by (intro ext) (rule richapi_row_appends)
  then show ?thesis
    by (simp add: richapi_body_def foldl_append_each)
qed




lemma rich_record_width:
  assumes "10 \<le> length (address addr)" and "balance addr < 10 ^ 8"
    and "length (format (firstseen addr) ''DD MMM YYYY'') = 11"
  shows "length (rich_record format addr) = 29"
proof -
  have "length (padDigits (balance addr) 8) = 8"
    using assms(2) by (intro padDigits_eight) simp
  then show ?thesis using assms(1,3) by (simp add: rich_record_def)
qed

lemma listtx_branch_parameters:
  assumes "q_overview q' = q_overview q" and "q_id q' = q_id q"
  shows "listtx_branch deps q' l = listtx_branch deps q l"
proof -
  have b: "listtx_body deps q' = listtx_body deps q"
    by (intro ext) (simp add: listtx_body_concat assms)
  show ?thesis unfolding listtx_branch_def b assms(1) by (rule refl)
qed

text \<open>The handler reads its query only through the tests it makes.\<close>

lemma get_root_same_tests:
  assumes "truthy (q_getbalance q') = truthy (q_getbalance q)"
    and "truthy (q_alert q') = truthy (q_alert q)"
    and "present (q_richapi q') = present (q_richapi q)"
    and "truthy (q_listtx q') = truthy (q_listtx q)"
    and "q_overview q' = q_overview q" and "q_id q' = q_id q"
  shows "get_root deps q' = get_root deps q"
proof -
  have b: "listtx_branch deps q' = listtx_branch deps q"
    by (intro ext) (rule listtx_branch_parameters [OF assms(5,6)])
  show ?thesis unfolding get_root_def assms(1-4) b by (rule refl)
qed

lemma empty_parameter_is_falsy: "truthy (Some []) = None" "truthy None = None"
  by (simp_all add: truthy_def)


section \<open>Properties of the legacy queries\<close>

text \<open>
  C4, as the handler answers. For every request whose \<open>getbalance\<close> parameter is not
  empty: when the address named exists, the body is its balance as the script prints a
  number, which for every unsigned 64-bit balance is decimal digits and nothing else, and
  for every balance below \<open>2^53\<close> the digits of the balance itself; when the address is
  unknown, the body is the string \<open>0\<close>. A request whose \<open>getbalance\<close> parameter is empty is
  answered as if it had none.
\<close>

theorem getbalance_reply:
  "(\<forall>a. q_getbalance query = Some a \<and> a \<noteq> [] \<longrightarrow>
      (\<forall>addr. getAddress deps a = Some addr \<longrightarrow>
          reply (get_root deps query) = Send (toString (balance addr))
          \<and> (balance addr < 2 ^ 53 \<longrightarrow>
               decimal_value (toString (balance addr)) = balance addr)
          \<and> (balance addr < 2 ^ 64 \<longrightarrow> (\<forall>c\<in>set (toString (balance addr)). is_digit c)))
      \<and> (getAddress deps a = None \<longrightarrow> reply (get_root deps query) = Send ''0''))
   \<and> (q_getbalance query = Some [] \<longrightarrow>
        get_root deps query = get_root deps (query\<lparr>q_getbalance := None\<rparr>))"
proof (intro conjI allI impI)
  fix a addr
  assume h: "q_getbalance query = Some a \<and> a \<noteq> []" and k: "getAddress deps a = Some addr"
  then show "reply (get_root deps query) = Send (toString (balance addr))"
    by (simp add: get_root_def truthy_def)
  show "decimal_value (toString (balance addr)) = balance addr" if "balance addr < 2 ^ 53"
    using that by (simp add: toString_safe decimal_value_decimal)
  show "\<forall>c\<in>set (toString (balance addr)). is_digit c" if "balance addr < 2 ^ 64"
    using that by (rule toString_all_digits)
next
  fix a
  assume "q_getbalance query = Some a \<and> a \<noteq> []" and "getAddress deps a = None"
  then show "reply (get_root deps query) = Send ''0''"
    by (simp add: get_root_def truthy_def)
next
  assume "q_getbalance query = Some []"
  then show "get_root deps query = get_root deps (query\<lparr>q_getbalance := None\<rparr>)"
    by (intro get_root_same_tests) (simp_all add: truthy_def)
qed

text \<open>A known address with balance 75, an unknown one, and an empty parameter.\<close>

theorem getbalance_reply_witness:
  "reply (get_root example_deps (no_query\<lparr>q_getbalance := Some ''kxxhsp1uzh''\<rparr>)) = Send ''75''
   \<and> balance example_address < 2 ^ 53
   \<and> decimal_value ''75'' = balance example_address
   \<and> balance example_address < 2 ^ 64
   \<and> is_digit (CHR ''7'') \<and> is_digit (CHR ''5'')
   \<and> reply (get_root example_deps (no_query\<lparr>q_getbalance := Some ''kre3w0i79j''\<rparr>)) = Send ''0''
   \<and> get_root example_deps (no_query\<lparr>q_getbalance := Some []\<rparr>) = get_root example_deps no_query"
  using getbalance_reply [where query = "no_query\<lparr>q_getbalance := Some ''kxxhsp1uzh''\<rparr>"
      and deps = example_deps]
    getbalance_reply [where query = "no_query\<lparr>q_getbalance := Some ''kre3w0i79j''\<rparr>"
      and deps = example_deps]
    getbalance_reply [where query = "no_query\<lparr>q_getbalance := Some []\<rparr>" and deps = example_deps]
  by (simp add: no_query_def example_deps_def example_address_def example_numbers_as_text
      is_digit_def)

text \<open>
  The request \<^verbatim>\<open>GET /?getbalance=\<close> on a ledger where no address is known: the
  parameter is there, the address it names is unknown, and the handler sends nothing
  but calls \<open>next()\<close>. And an address with the balance \<open>2^63\<close>: the body is not the digits
  of the balance but those of the double next to it, filled up with zeros.
\<close>

theorem getbalance_counterexample:
  "q_getbalance (no_query\<lparr>q_getbalance := Some []\<rparr>) = Some []
   \<and> getAddress no_addresses [] = None
   \<and> reply (get_root no_addresses (no_query\<lparr>q_getbalance := Some []\<rparr>)) = Next
   \<and> getAddress large_deps ''kre3w0i79j'' = Some large_address
   \<and> balance large_address = 9223372036854775808
   \<and> decimal (balance large_address) = ''9223372036854775808''
   \<and> reply (get_root large_deps (no_query\<lparr>q_getbalance := Some ''kre3w0i79j''\<rparr>))
       = Send ''9223372036854776000''"
  by (simp add: no_query_def no_addresses_def large_deps_def large_address_def example_deps_def
      example_address_def get_root_def truthy_def present_def example_decimals
      large_balance_as_text)

text \<open>
  C6, as the handler answers. For every request that has the \<open>richapi\<close> parameter and no
  non-empty \<open>getbalance\<close> or \<open>alert\<close> parameter, the body is the concatenation, with
  nothing between them, of one record per row of the rich list: the first ten
  characters of the address, the balance zero-padded to eight digits, and \<open>firstseen\<close>
  formatted with the pattern \<open>DD MMM YYYY\<close>. The record has the fixed width of 29
  characters, ten, eight and eleven, for every row whose balance is below \<open>10^8\<close>, given
  an address of at least ten characters and a date printed in eleven.
\<close>

theorem richapi_reply:
  "(truthy (q_getbalance query) = None \<and> truthy (q_alert query) = None
      \<and> present (q_richapi query) \<longrightarrow>
      reply (get_root deps query)
        = Send (concat (map (rich_record (moment_format deps)) (rows (getRich deps)))))
   \<and> rich_record format addr
       = take 10 (address addr) @ padDigits (balance addr) 8
           @ format (firstseen addr) ''DD MMM YYYY''
   \<and> (10 \<le> length (address addr) \<and> balance addr < 10 ^ 8
        \<and> length (format (firstseen addr) ''DD MMM YYYY'') = 11 \<longrightarrow>
        length (take 10 (address addr)) = 10
        \<and> length (padDigits (balance addr) 8) = 8
        \<and> length (rich_record format addr) = 29)"
proof (intro conjI impI)
  assume "truthy (q_getbalance query) = None \<and> truthy (q_alert query) = None
      \<and> present (q_richapi query)"
  then show "reply (get_root deps query)
        = Send (concat (map (rich_record (moment_format deps)) (rows (getRich deps))))"
    by (simp add: get_root_def richapi_body_concat)
next
  show "rich_record format addr
       = take 10 (address addr) @ padDigits (balance addr) 8
           @ format (firstseen addr) ''DD MMM YYYY''"
    by (simp add: rich_record_def)
next
  assume h: "10 \<le> length (address addr) \<and> balance addr < 10 ^ 8
        \<and> length (format (firstseen addr) ''DD MMM YYYY'') = 11"
  then show "length (take 10 (address addr)) = 10" by simp
  from h show "length (padDigits (balance addr) 8) = 8" by (intro padDigits_eight) simp
  from h show "length (rich_record format addr) = 29" by (intro rich_record_width) simp_all
qed

text \<open>The request \<^verbatim>\<open>GET /?richapi\<close> on the example ledger.\<close>

theorem richapi_reply_witness:
  "truthy (q_getbalance (no_query\<lparr>q_richapi := Some []\<rparr>)) = None
   \<and> truthy (q_alert (no_query\<lparr>q_richapi := Some []\<rparr>)) = None
   \<and> present (q_richapi (no_query\<lparr>q_richapi := Some []\<rparr>))
   \<and> reply (get_root example_deps (no_query\<lparr>q_richapi := Some []\<rparr>))
       = Send ''kxxhsp1uzh0000007502 Feb 2016''
   \<and> 10 \<le> length (address example_address) \<and> balance example_address < 10 ^ 8
   \<and> length (example_format (firstseen example_address) ''DD MMM YYYY'') = 11
   \<and> length (rich_record example_format example_address) = 29"
  using richapi_reply [where query = "no_query\<lparr>q_richapi := Some []\<rparr>" and deps = example_deps
      and format = example_format and addr = example_address]
  by (simp add: no_query_def example_deps_def example_address_def example_format_def
      truthy_def present_def rich_record_def example_numbers_as_text)

text \<open>
  The requests \<^verbatim>\<open>GET /?richapi&getbalance=kxxhsp1uzh\<close> and \<^verbatim>\<open>GET /?richapi&alert=key\<close>:
  they have the \<open>richapi\<close> parameter, and the body is the balance, or the empty alert,
  not the rich list. And a rich list with a balance of nine digits: its record is 30
  characters wide, the other one 29.
\<close>

theorem richapi_counterexample:
  "q_richapi (no_query\<lparr>q_richapi := Some [], q_getbalance := Some ''kxxhsp1uzh''\<rparr>) = Some []
   \<and> reply (get_root example_deps
        (no_query\<lparr>q_richapi := Some [], q_getbalance := Some ''kxxhsp1uzh''\<rparr>)) = Send ''75''
   \<and> reply (get_root example_deps
        (no_query\<lparr>q_richapi := Some [], q_alert := Some ''key''\<rparr>)) = Send []
   \<and> concat (map (rich_record (moment_format example_deps)) (rows (getRich example_deps)))
       = ''kxxhsp1uzh0000007502 Feb 2016''
   \<and> reply (get_root two_rich (no_query\<lparr>q_richapi := Some []\<rparr>))
       = Send ''kre3w0i79j12345678902 Feb 2016kxxhsp1uzh0000007502 Feb 2016''
   \<and> length (rich_record example_format rich_address) = 30
   \<and> length (rich_record example_format example_address) = 29"
  by (simp add: no_query_def two_rich_def rich_address_def example_deps_def example_address_def
      example_format_def get_root_def truthy_def present_def richapi_body_concat rich_record_def
      example_numbers_as_text)

lemma listtx_branch_known:
  assumes "getAddress deps l = Some addr"
  shows "listtx_branch deps query l =
           (case getTransactionsByAddress deps (address addr)
                   (if present (q_overview query) then 3 else 500) 0 True of
              Settled results \<Rightarrow>
                \<lparr>reply = Send (listtx_body deps query (address addr) (rows results)),
                 fetched = [\<lparr>fetch_address = address addr,
                             fetch_limit = (if present (q_overview query) then 3 else 500),
                             fetch_offset = 0, fetch_includeMined = True\<rparr>]\<rparr>
            | Pending results \<Rightarrow>
                \<lparr>reply = TypeError,
                 fetched = [\<lparr>fetch_address = address addr,
                             fetch_limit = (if present (q_overview query) then 3 else 500),
                             fetch_offset = 0, fetch_includeMined = True\<rparr>]\<rparr>)"
  using assms by (simp add: listtx_branch_def listing_call_def)

lemma get_root_reaches_listtx:
  assumes "truthy (q_getbalance query) = None" and "truthy (q_alert query) = None"
    and "\<not> present (q_richapi query)" and "q_listtx query = Some l" and "l \<noteq> []"
  shows "get_root deps query = listtx_branch deps query l"
  using assms by (simp add: get_root_def truthy_def)






text \<open>
  When the listing call hands back a promise, the rows are undefined and the handler
  throws before it sends anything.
\<close>

lemma listtx_on_a_promise:
  assumes "getAddress deps l = Some addr"
    and "getTransactionsByAddress deps (address addr)
           (if present (q_overview query) then 3 else 500) 0 True = Pending results"
  shows "reply (listtx_branch deps query l) = TypeError"
  using assms by (simp add: listtx_branch_known)

text \<open>
  C9, as the handler does it. A request whose \<open>listtx\<close> parameter is not empty, that has
  no non-empty \<open>getbalance\<close> or \<open>alert\<close> parameter and no \<open>richapi\<close> parameter, and whose
  address is known, calls \<open>tx.getTransactionsByAddress\<close> exactly once: for that address,
  with mined transactions included, offset 0, and limit 3 when the \<open>overview\<close> parameter
  is present and 500 when it is not; and the answer is made from what that call hands
  back. No call the handler makes has other arguments, and a request that an earlier
  branch answers, or whose \<open>listtx\<close> parameter is empty, makes no call.
\<close>

theorem listtx_fetch_arguments:
  "(truthy (q_getbalance query) = None \<and> truthy (q_alert query) = None
      \<and> \<not> present (q_richapi query) \<longrightarrow>
      (\<forall>l addr. q_listtx query = Some l \<and> l \<noteq> [] \<and> getAddress deps l = Some addr \<longrightarrow>
         fetched (get_root deps query)
           = [\<lparr>fetch_address = address addr,
               fetch_limit = (if present (q_overview query) then 3 else 500),
               fetch_offset = 0, fetch_includeMined = True\<rparr>]
         \<and> reply (get_root deps query)
             = (case getTransactionsByAddress deps (address addr)
                       (if present (q_overview query) then 3 else 500) 0 True of
                  Settled results \<Rightarrow>
                    Send (listtx_body deps query (address addr) (rows results))
                | Pending results \<Rightarrow> TypeError)))
   \<and> (\<forall>c\<in>set (fetched (get_root deps query)).
         fetch_includeMined c \<and> fetch_offset c = 0
         \<and> fetch_limit c = (if present (q_overview query) then 3 else 500)
         \<and> (\<exists>l addr. q_listtx query = Some l \<and> getAddress deps l = Some addr
               \<and> fetch_address c = address addr))
   \<and> (truthy (q_getbalance query) \<noteq> None \<or> truthy (q_alert query) \<noteq> None
        \<or> present (q_richapi query) \<or> truthy (q_listtx query) = None \<longrightarrow>
        fetched (get_root deps query) = [])"
proof (intro conjI impI allI)
  fix l addr
  assume p: "truthy (q_getbalance query) = None \<and> truthy (q_alert query) = None
      \<and> \<not> present (q_richapi query)"
    and l: "q_listtx query = Some l \<and> l \<noteq> [] \<and> getAddress deps l = Some addr"
  then have r: "get_root deps query = listtx_branch deps query l"
    by (intro get_root_reaches_listtx) simp_all
  from l have k: "getAddress deps l = Some addr" by simp
  show "fetched (get_root deps query)
           = [\<lparr>fetch_address = address addr,
               fetch_limit = (if present (q_overview query) then 3 else 500),
               fetch_offset = 0, fetch_includeMined = True\<rparr>]"
    unfolding r listtx_branch_known [OF k] by (simp split: unawaited.splits)
  show "reply (get_root deps query)
             = (case getTransactionsByAddress deps (address addr)
                       (if present (q_overview query) then 3 else 500) 0 True of
                  Settled results \<Rightarrow>
                    Send (listtx_body deps query (address addr) (rows results))
                | Pending results \<Rightarrow> TypeError)"
    unfolding r listtx_branch_known [OF k] by (simp split: unawaited.splits)
next
  show "\<forall>c\<in>set (fetched (get_root deps query)).
         fetch_includeMined c \<and> fetch_offset c = 0
         \<and> fetch_limit c = (if present (q_overview query) then 3 else 500)
         \<and> (\<exists>l addr. q_listtx query = Some l \<and> getAddress deps l = Some addr
               \<and> fetch_address c = address addr)"
    by (auto simp: get_root_def listtx_branch_def listing_call_def truthy_def
        split: option.splits unawaited.splits if_splits)
next
  assume "truthy (q_getbalance query) \<noteq> None \<or> truthy (q_alert query) \<noteq> None
        \<or> present (q_richapi query) \<or> truthy (q_listtx query) = None"
  then show "fetched (get_root deps query) = []"
    by (auto simp: get_root_def split: option.splits)
qed

text \<open>
  With a listing that answers with the arguments of its call, the body shows them: the
  limit 3 or 500 as the value, the offset 0 as the id, and the missing sender of a
  listing that includes mined transactions. With the \<open>richapi\<close> parameter beside
  \<open>listtx\<close>, no call is made.
\<close>

theorem listtx_fetch_arguments_witness:
  "reply (get_root echo_deps
      (no_query\<lparr>q_listtx := Some ''kxxhsp1uzh'', q_overview := Some [], q_id := Some []\<rparr>))
     = Send ''Feb 02 23:30N/A(Mined)+0000000300000000end''
   \<and> reply (get_root echo_deps (no_query\<lparr>q_listtx := Some ''kxxhsp1uzh'', q_id := Some []\<rparr>))
     = Send ''Feb 02 23:30N/A(Mined)+0000050000000000end''
   \<and> fetched (get_root echo_deps
        (no_query\<lparr>q_listtx := Some ''kxxhsp1uzh'', q_overview := Some [], q_id := Some []\<rparr>))
     = [\<lparr>fetch_address = ''kxxhsp1uzh'', fetch_limit = 3, fetch_offset = 0,
         fetch_includeMined = True\<rparr>]
   \<and> fetched (get_root echo_deps (no_query\<lparr>q_listtx := Some ''kxxhsp1uzh'', q_id := Some []\<rparr>))
     = [\<lparr>fetch_address = ''kxxhsp1uzh'', fetch_limit = 500, fetch_offset = 0,
         fetch_includeMined = True\<rparr>]
   \<and> present (q_richapi (no_query\<lparr>q_listtx := Some ''kxxhsp1uzh'', q_richapi := Some []\<rparr>))
   \<and> fetched (get_root echo_deps
        (no_query\<lparr>q_listtx := Some ''kxxhsp1uzh'', q_richapi := Some []\<rparr>)) = []"
  using listtx_fetch_arguments [where deps = echo_deps
      and query = "no_query\<lparr>q_listtx := Some ''kxxhsp1uzh'', q_overview := Some [], q_id := Some []\<rparr>"]
    listtx_fetch_arguments [where deps = echo_deps
      and query = "no_query\<lparr>q_listtx := Some ''kxxhsp1uzh'', q_id := Some []\<rparr>"]
    listtx_fetch_arguments [where deps = echo_deps
      and query = "no_query\<lparr>q_listtx := Some ''kxxhsp1uzh'', q_richapi := Some []\<rparr>",
      THEN conjunct2, THEN conjunct2]
  by (simp add: no_query_def echo_deps_def example_deps_def example_address_def
      example_format_def truthy_def present_def listtx_body_concat legacy_record_def
      legacy_counterpart_def legacy_sign_def absent_or_short_def example_numbers_as_text)

text \<open>
  Requests with the \<open>listtx\<close> parameter on a known address that an earlier branch
  answers, and one with an empty \<open>listtx\<close> on a ledger that knows every address: no
  listing is fetched.
\<close>

theorem listtx_fetch_counterexample:
  "getAddress example_deps ''kxxhsp1uzh'' = Some example_address
   \<and> fetched (get_root example_deps
        (no_query\<lparr>q_listtx := Some ''kxxhsp1uzh'', q_getbalance := Some ''kxxhsp1uzh''\<rparr>)) = []
   \<and> reply (get_root example_deps
        (no_query\<lparr>q_listtx := Some ''kxxhsp1uzh'', q_getbalance := Some ''kxxhsp1uzh''\<rparr>))
       = Send ''75''
   \<and> fetched (get_root example_deps
        (no_query\<lparr>q_listtx := Some ''kxxhsp1uzh'', q_alert := Some ''key''\<rparr>)) = []
   \<and> fetched (get_root example_deps
        (no_query\<lparr>q_listtx := Some ''kxxhsp1uzh'', q_richapi := Some []\<rparr>)) = []
   \<and> getAddress large_deps [] = Some large_address
   \<and> fetched (get_root large_deps (no_query\<lparr>q_listtx := Some []\<rparr>)) = []
   \<and> reply (get_root large_deps (no_query\<lparr>q_listtx := Some []\<rparr>)) = Next"
  by (simp add: no_query_def example_deps_def large_deps_def example_address_def
      get_root_def truthy_def present_def example_numbers_as_text)

text \<open>
  C10. In the row the \<open>listtx\<close> loop renders for a transaction: when \<open>to\<close> is absent or
  shorter than ten characters the counterpart is \<open>N/A(Names)\<close>, whatever \<open>from\<close> is, since
  the override on \<open>to\<close> comes last; and when \<open>to\<close> is the address queried the sign is \<open>+\<close>,
  whatever the counterpart. The counterpart and the sign are the second and third
  pieces of the row.
\<close>

theorem names_sentinel_precedence:
  "(absent_or_short (tx_to t) \<longrightarrow> fst (listtx_peer_sign a t) = Some ''N/A(Names)'')
   \<and> (tx_to t = Some a \<longrightarrow> snd (listtx_peer_sign a t) = ''+'')
   \<and> listtx_row deps query a out t
       = out @ moment_format deps (tx_time t) ''MMM DD HH:mm''
           @ js_text (fst (listtx_peer_sign a t)) @ snd (listtx_peer_sign a t)
           @ padDigits (tx_value t) 8
           @ (if present (q_id query) then padDigits (tx_id t) 8 else [])"
  by (cases "listtx_peer_sign a t")
     (auto simp: listtx_peer_sign_def listtx_row_def Let_def)

text \<open>
  A transaction with neither \<open>from\<close> nor \<open>to\<close> shows \<open>N/A(Names)\<close>; a mined transaction to
  the address queried shows \<open>N/A(Mined)\<close> with the sign \<open>+\<close>.
\<close>

theorem names_sentinel_precedence_witness:
  "absent_or_short (tx_to (mined_25\<lparr>tx_to := None\<rparr>))
   \<and> absent_or_short (tx_from (mined_25\<lparr>tx_to := None\<rparr>))
   \<and> fst (listtx_peer_sign ''kxxhsp1uzh'' (mined_25\<lparr>tx_to := None\<rparr>)) = Some ''N/A(Names)''
   \<and> tx_to mined_25 = Some ''kxxhsp1uzh''
   \<and> snd (listtx_peer_sign ''kxxhsp1uzh'' mined_25) = ''+''
   \<and> fst (listtx_peer_sign ''kxxhsp1uzh'' mined_25) = Some ''N/A(Mined)''"
  using names_sentinel_precedence [where t = "mined_25\<lparr>tx_to := None\<rparr>" and a = "''kxxhsp1uzh''"]
    names_sentinel_precedence [where t = mined_25 and a = "''kxxhsp1uzh''"]
  by (simp add: mined_25_def absent_or_short_def listtx_peer_sign_def Let_def)

text \<open>
  C7, as the legacy rendering does it. The row of the \<open>listtx\<close> loop never reads the
  stored type: changing the type of a transaction changes neither its counterpart and
  sign nor its row, and two transactions with the same \<open>from\<close> and \<open>to\<close> get the same
  counterpart and sign. The sentinels are chosen from the shape of the fields alone:
  \<open>N/A(Names)\<close> when \<open>to\<close> is absent or shorter than ten characters, otherwise
  \<open>N/A(Mined)\<close> when \<open>from\<close> is, and otherwise no sentinel but \<open>from\<close>, \<open>to\<close> or nothing.
\<close>

theorem sentinel_from_field_shape:
  "listtx_peer_sign a (t\<lparr>tx_type := ty\<rparr>) = listtx_peer_sign a t
   \<and> listtx_row deps query a out (t\<lparr>tx_type := ty\<rparr>) = listtx_row deps query a out t
   \<and> (\<forall>t'. tx_from t' = tx_from t \<and> tx_to t' = tx_to t \<longrightarrow>
         listtx_peer_sign a t' = listtx_peer_sign a t)
   \<and> (absent_or_short (tx_to t) \<longrightarrow> fst (listtx_peer_sign a t) = Some ''N/A(Names)'')
   \<and> (\<not> absent_or_short (tx_to t) \<and> absent_or_short (tx_from t) \<longrightarrow>
         fst (listtx_peer_sign a t) = Some ''N/A(Mined)'')
   \<and> (\<not> absent_or_short (tx_to t) \<and> \<not> absent_or_short (tx_from t) \<longrightarrow>
         fst (listtx_peer_sign a t) \<in> {tx_from t, tx_to t, Some []})"
  by (simp add: listtx_peer_sign_def listtx_row_def Let_def)

text \<open>
  A mined row retagged as a transfer still shows \<open>N/A(Mined)\<close>; a transfer retagged as
  mined still shows its recipient; a transfer to a short \<open>to\<close> shows \<open>N/A(Names)\<close>.
\<close>

theorem sentinel_from_field_shape_witness:
  "\<not> absent_or_short (tx_to mined_25) \<and> absent_or_short (tx_from mined_25)
   \<and> fst (listtx_peer_sign ''kxxhsp1uzh'' (mined_25\<lparr>tx_type := transfer\<rparr>)) = Some ''N/A(Mined)''
   \<and> \<not> absent_or_short (tx_to sent_75) \<and> \<not> absent_or_short (tx_from sent_75)
   \<and> fst (listtx_peer_sign ''kxxhsp1uzh'' (sent_75\<lparr>tx_type := mined\<rparr>)) = Some ''kre3w0i79j''
   \<and> absent_or_short (tx_to sent_to_short)
   \<and> fst (listtx_peer_sign ''kxxhsp1uzh'' (sent_to_short\<lparr>tx_type := transfer\<rparr>)) = Some ''N/A(Names)''"
  using sentinel_from_field_shape [where a = "''kxxhsp1uzh''" and t = mined_25 and ty = transfer]
    sentinel_from_field_shape [where a = "''kxxhsp1uzh''" and t = sent_75 and ty = mined]
    sentinel_from_field_shape [where a = "''kxxhsp1uzh''" and t = sent_to_short and ty = transfer]
  by (simp add: mined_25_def sent_75_def sent_to_short_def absent_or_short_def
      listtx_peer_sign_def Let_def)

text \<open>
  Two transfers sent by the address queried, alike but for the length of \<open>to\<close>: one is
  shown with the names sentinel, the other with its recipient. And a row of type mined
  with a sender of ten characters is shown with that sender, not with \<open>N/A(Mined)\<close>.
\<close>

theorem sentinel_same_type_counterexample:
  "tx_type sent_to_short = tx_type sent_75
   \<and> fst (listtx_peer_sign ''kxxhsp1uzh'' sent_to_short) = Some ''N/A(Names)''
   \<and> fst (listtx_peer_sign ''kxxhsp1uzh'' sent_75) = Some ''kre3w0i79j''
   \<and> tx_type (mined_25\<lparr>tx_from := Some ''kre3w0i79j''\<rparr>) = mined
   \<and> fst (listtx_peer_sign ''kxxhsp1uzh'' (mined_25\<lparr>tx_from := Some ''kre3w0i79j''\<rparr>))
       = Some ''kre3w0i79j''"
  by (simp add: mined_25_def sent_75_def sent_to_short_def absent_or_short_def
      listtx_peer_sign_def Let_def)


section \<open>Properties of the JSON transaction listing\<close>

lemma listByAddress_excludes_mined:
  assumes "t \<in> set (rows (listByAddress log a limit offset False))"
  shows "tx_type t \<noteq> mined"
proof -
  have "t \<in> set (rev (sort_key tx_id (filter (\<lambda>t. (tx_from t = Some a \<or> tx_to t = Some a)
                               \<and> tx_type t \<noteq> mined) log)))"
    using assms by (auto simp: listByAddress_def Let_def dest!: in_set_takeD in_set_dropD)
  then show ?thesis by simp
qed

lemma controller_of_log_excludes_mined: "excludes_mined (controller_of_log maxLimit log)"
  unfolding excludes_mined_def controller_of_log_def
  using listByAddress_excludes_mined by blast

text \<open>
  C8. The route calls the controller once, with \<open>includeMined\<close> false exactly when the
  \<open>excludeMined\<close> parameter is present. So with a controller that keeps the
  specification's contract, a request with \<open>excludeMined\<close> returns no transaction of type
  mined; the listing of the specification keeps that contract. Without \<open>excludeMined\<close>
  the listing is not filtered by type: the page is cut from all transactions of the
  address, the mined ones among them.
\<close>

theorem excludeMined_flag:
  "controller_calls (get_address_transactions controller toJSON request)
     = [\<lparr>call_address = param_address request, call_limit = q_limit request,
         call_offset = q_offset request,
         call_includeMined = (q_excludeMined request = None)\<rparr>]
   \<and> (excludes_mined controller \<and> q_excludeMined request \<noteq> None \<longrightarrow>
        (\<forall>body. json_reply (get_address_transactions controller toJSON request) = Json body \<longrightarrow>
           (\<exists>found. body_transactions body = map toJSON found
              \<and> (\<forall>t\<in>set found. tx_type t \<noteq> mined))))
   \<and> excludes_mined (controller_of_log maxLimit log)
   \<and> (q_excludeMined request = None \<longrightarrow>
        (\<exists>body. json_reply (get_address_transactions (controller_of_log maxLimit log) toJSON request)
                  = Json body
           \<and> body_transactions body
               = map toJSON
                   (take (min maxLimit (case q_limit request of None \<Rightarrow> 50 | Some l \<Rightarrow> l))
                      (drop (case q_offset request of None \<Rightarrow> 0 | Some off \<Rightarrow> off)
                         (rev (sort_key tx_id
                            (filter (\<lambda>t. tx_from t = Some (param_address request)
                                          \<or> tx_to t = Some (param_address request)) log)))))))"
proof (intro conjI impI allI)
  show "controller_calls (get_address_transactions controller toJSON request)
     = [\<lparr>call_address = param_address request, call_limit = q_limit request,
         call_offset = q_offset request,
         call_includeMined = (q_excludeMined request = None)\<rparr>]"
    by (simp add: get_address_transactions_def Let_def present_def split: sum.splits)
next
  fix body
  assume h: "excludes_mined controller \<and> q_excludeMined request \<noteq> None"
    and j: "json_reply (get_address_transactions controller toJSON request) = Json body"
  from j h obtain found where
    c: "controller (param_address request) (q_limit request) (q_offset request) False = Inr found"
    and b: "body_transactions body = map toJSON (rows found)"
    by (auto simp: get_address_transactions_def Let_def present_def foldl_push split: sum.splits)
  from h c have "\<forall>t\<in>set (rows found). tx_type t \<noteq> mined"
    unfolding excludes_mined_def by blast
  with b show "\<exists>found. body_transactions body = map toJSON found
              \<and> (\<forall>t\<in>set found. tx_type t \<noteq> mined)" by blast
next
  show "excludes_mined (controller_of_log maxLimit log)"
    by (rule controller_of_log_excludes_mined)
next
  assume "q_excludeMined request = None"
  then show "\<exists>body. json_reply (get_address_transactions (controller_of_log maxLimit log) toJSON request)
                  = Json body
           \<and> body_transactions body
               = map toJSON
                   (take (min maxLimit (case q_limit request of None \<Rightarrow> 50 | Some l \<Rightarrow> l))
                      (drop (case q_offset request of None \<Rightarrow> 0 | Some off \<Rightarrow> off)
                         (rev (sort_key tx_id
                            (filter (\<lambda>t. tx_from t = Some (param_address request)
                                          \<or> tx_to t = Some (param_address request)) log)))))"
    by (simp add: get_address_transactions_def controller_of_log_def listByAddress_def
        Let_def present_def foldl_push)
qed

text \<open>
  The example log holds two transfers and one mined transaction of the address; the
  transactions are shown by their ids. With \<open>excludeMined\<close> the two transfers come back,
  without it all three.
\<close>

theorem excludeMined_flag_witness:
  "excludes_mined (controller_of_log 1000 example_log)
   \<and> q_excludeMined with_excludeMined \<noteq> None
   \<and> json_reply (get_address_transactions (controller_of_log 1000 example_log) tx_id
        with_excludeMined)
       = Json \<lparr>body_ok = True, body_count = 2, body_total = 2,
               body_transactions = [153197, 153196]\<rparr>
   \<and> q_excludeMined without_excludeMined = None
   \<and> json_reply (get_address_transactions (controller_of_log 1000 example_log) tx_id
        without_excludeMined)
       = Json \<lparr>body_ok = True, body_count = 3, body_total = 3,
               body_transactions = [153197, 153196, 153190]\<rparr>"
  using excludeMined_flag [where controller = "controller_of_log 1000 example_log"
      and toJSON = tx_id and request = with_excludeMined and maxLimit = 1000 and log = example_log]
    excludeMined_flag [where controller = "controller_of_log 1000 example_log"
      and toJSON = tx_id and request = without_excludeMined and maxLimit = 1000 and log = example_log]
  by (simp add: with_excludeMined_def without_excludeMined_def example_log_def
      mined_25_def sent_75_def received_50_def get_address_transactions_def
      controller_of_log_def listByAddress_def present_def Let_def)

end
